theory Spec2Isabelle
  imports Main
begin

section \<open>Data model of config/config.go\<close>

text \<open>
  The package \<open>client/https\<close> is imported by config.go; of its types the source
  reads the field \<open>ServerURL\<close> of \<open>https.MenderServer\<close> and the fields
  \<open>Certificate\<close> and \<open>Key\<close> of \<open>https.Client\<close>, and writes the four fields of
  \<open>https.Config\<close>. Go strings are byte sequences: \<open>string\<close> (a list of 8-bit
  characters).
\<close>

record MenderServer =
  ServerURL :: string

record Client =
  Certificate :: string
  Key :: string

text \<open>
  \<open>Servers []https.MenderServer\<close> is a slice: \<open>None\<close> is the nil slice, \<open>Some xs\<close>
  a non-nil slice (\<open>Some []\<close> the non-nil slice of length 0). The field of the
  configuration is named \<open>cServerURL\<close> here because the server entry already owns
  the name \<open>ServerURL\<close>.
\<close>

record MenderShellConfigFromFile =
  ClientProtocol :: string
  HTTPSClient :: Client
  SkipVerify :: bool
  ServerCertificate :: string
  cServerURL :: string
  Servers :: "MenderServer list option"
  ShellCommand :: string
  User :: string

text \<open>\<open>MenderShellConfig\<close> embeds \<open>MenderShellConfigFromFile\<close> and adds no field.\<close>

type_synonym MenderShellConfig = MenderShellConfigFromFile

record Config =
  ServerCert :: string
  IsHTTPS :: bool
  Client :: "Client option"
  NoVerify :: bool

text \<open>
  Go errors: \<open>errors.New msg\<close> is \<open>ErrNew msg\<close>; an error handed back by the
  operating system through \<open>ioutil.ReadFile\<close> is \<open>ErrIO msg\<close>.
\<close>

datatype error = ErrNew string | ErrIO string

text \<open>
  The calls to the logger made by config.go, in the order they are made. The
  formatted arguments are kept as data.
\<close>

datatype log_event =
    WarnNoServerURL
  | ErrorBothServersAndServerURL
  | WarnServerEntryNoURL nat
  | DebugVerifiedConfiguration MenderShellConfig
  | DebugFileDoesNotExist string
  | DebugReadingFile string
  | ErrorLoadingFile string error
  | InfoLoadedFile string
  | DebugLoadedCount nat
  | InfoNoConfigurationFiles
  | DebugLoadedConfiguration MenderShellConfig

definition httpsSchema :: string where
  "httpsSchema = ''https''"

definition NewMenderShellConfig :: MenderShellConfig where
  "NewMenderShellConfig =
     \<lparr>ClientProtocol = '''', HTTPSClient = \<lparr>Certificate = '''', Key = ''''\<rparr>,
      SkipVerify = False, ServerCertificate = '''', cServerURL = '''',
      Servers = None, ShellCommand = '''', User = ''''\<rparr>"

section \<open>strings.HasSuffix and strings.TrimSuffix\<close>

definition HasSuffix :: "string \<Rightarrow> string \<Rightarrow> bool" where
  "HasSuffix s suffix =
     (length suffix \<le> length s \<and> drop (length s - length suffix) s = suffix)"

definition TrimSuffix :: "string \<Rightarrow> string \<Rightarrow> string" where
  "TrimSuffix s suffix =
     (if HasSuffix s suffix then take (length s - length suffix) s else s)"

section \<open>Validate\<close>

text \<open>
  The loop of \<open>Validate\<close> over the indices of \<open>c.Servers\<close>: entry \<open>i\<close> loses its
  \<open>/\<close> suffix, and a warning with the position \<open>i + 1\<close> is logged when the URL is
  then empty. The result is the updated slice and the warnings in order.
\<close>

function validate_loop :: "nat \<Rightarrow> MenderServer list \<Rightarrow> MenderServer list \<times> log_event list" where
  "validate_loop i srv =
     (if i < length srv then
        let srv' = (if HasSuffix (ServerURL (srv ! i)) ''/''
                    then srv[i := (srv ! i)\<lparr>ServerURL := TrimSuffix (ServerURL (srv ! i)) ''/''\<rparr>]
                    else srv);
            w = (if ServerURL (srv' ! i) = '''' then [WarnServerEntryNoURL (i + 1)] else [])
        in (case validate_loop (i + 1) srv' of (r, l) \<Rightarrow> (r, w @ l))
      else (srv, []))"
  by pat_completeness auto
termination
  by (relation "measure (\<lambda>(i, srv). length srv - i)") auto

declare validate_loop.simps [simp del]

text \<open>
  \<open>Validate\<close> works on the configuration in place and returns an error. The model
  returns the error (\<open>None\<close> for nil), the configuration as the call leaves it and
  the log events of the call. \<open>c.HTTPSClient.Validate()\<close> belongs to the package
  \<open>client/https\<close>; it is the parameter \<open>client_validate\<close>, the HTTPS client as that
  method leaves it.
\<close>

definition Validate ::
  "(Client \<Rightarrow> Client) \<Rightarrow> MenderShellConfig \<Rightarrow> error option \<times> MenderShellConfig \<times> log_event list" where
  "Validate client_validate c =
     (case Servers c of
        None \<Rightarrow>
          (let l0 = (if cServerURL c = '''' then [WarnNoServerURL] else []);
               (srv, l1) = validate_loop 0 [\<lparr>ServerURL = cServerURL c\<rparr>];
               c' = c\<lparr>Servers := Some srv, HTTPSClient := client_validate (HTTPSClient c)\<rparr>
           in (None, c', l0 @ l1 @ [DebugVerifiedConfiguration c']))
      | Some srv0 \<Rightarrow>
          if cServerURL c \<noteq> '''' then
            (Some (ErrNew ''Both Servers AND ServerURL given in mender-shell.conf''), c,
             [ErrorBothServersAndServerURL])
          else
            (let (srv, l1) = validate_loop 0 srv0;
                 c' = c\<lparr>Servers := Some srv, HTTPSClient := client_validate (HTTPSClient c)\<rparr>
             in (None, c', l1 @ [DebugVerifiedConfiguration c'])))"

section \<open>GetHTTPConfig\<close>

text \<open>
  \<open>maybeHTTPSClient\<close> first runs the HTTPS client's validation and then reads the
  two fields; the pointer it returns is to the client of the configuration.
\<close>

definition maybeHTTPSClient :: "(Client \<Rightarrow> Client) \<Rightarrow> MenderShellConfig \<Rightarrow> Client option \<times> MenderShellConfig" where
  "maybeHTTPSClient client_validate c =
     (let c' = c\<lparr>HTTPSClient := client_validate (HTTPSClient c)\<rparr>
      in if Certificate (HTTPSClient c') \<noteq> '''' \<and> Key (HTTPSClient c') \<noteq> ''''
         then (Some (HTTPSClient c'), c')
         else (None, c'))"

definition GetHTTPConfig :: "(Client \<Rightarrow> Client) \<Rightarrow> MenderShellConfig \<Rightarrow> Config \<times> MenderShellConfig" where
  "GetHTTPConfig client_validate c =
     (let (cl, c') = maybeHTTPSClient client_validate c
      in (\<lparr>ServerCert = ServerCertificate c,
           IsHTTPS = (ClientProtocol c = httpsSchema),
           Client = cl,
           NoVerify = SkipVerify c\<rparr>, c'))"

section \<open>LoadConfig\<close>

text \<open>
  What the operating system and \<open>encoding/json\<close> answer is the environment of the
  load. \<open>os.Stat\<close> on a path answers without error (\<open>StatOK\<close>), with an error for
  which \<open>os.IsNotExist\<close> holds (\<open>StatNotExist\<close>) or with another error;
  \<open>ioutil.ReadFile\<close> answers the bytes of the file or an error.
\<close>

datatype stat_result = StatOK | StatNotExist | StatError string

datatype read_result = ReadOK string | ReadError string

record filesystem =
  os_Stat :: "string \<Rightarrow> stat_result"
  ioutil_ReadFile :: "string \<Rightarrow> read_result"

text \<open>
  An error of \<open>json.Unmarshal\<close>, with the text of \<open>err.Error()\<close>: a
  \<open>*json.SyntaxError\<close>, or an error of another type.
\<close>

datatype json_error = SyntaxError string | OtherDecodeError string

text \<open>
  \<open>json.Unmarshal(conf, &config)\<close> decodes the bytes into the configuration it is
  handed, which keeps the fields the document does not assign. The decoder is a
  parameter: from the bytes and the configuration so far, an error or the
  configuration after decoding.
\<close>

type_synonym unmarshal = "string \<Rightarrow> MenderShellConfigFromFile \<Rightarrow> json_error + MenderShellConfigFromFile"

definition readConfigFile ::
  "filesystem \<Rightarrow> unmarshal \<Rightarrow> MenderShellConfigFromFile \<Rightarrow> string
     \<Rightarrow> (error + MenderShellConfigFromFile) \<times> log_event list" where
  "readConfigFile fs json_Unmarshal config fileName =
     (case ioutil_ReadFile fs fileName of
        ReadError e \<Rightarrow> (Inl (ErrIO e), [DebugReadingFile fileName])
      | ReadOK conf \<Rightarrow>
          (case json_Unmarshal conf config of
             Inl (SyntaxError m) \<Rightarrow>
               (Inl (ErrNew (''Error parsing mender configuration file: '' @ m)),
                [DebugReadingFile fileName])
           | Inl (OtherDecodeError m) \<Rightarrow>
               (Inl (ErrNew (''Error parsing config file: '' @ m)),
                [DebugReadingFile fileName])
           | Inr config' \<Rightarrow> (Inr config', [DebugReadingFile fileName])))"

text \<open>
  \<open>loadConfigFile\<close> returns an error, or leaves the configuration and the counter
  of loaded files updated for its caller.
\<close>

definition loadConfigFile ::
  "filesystem \<Rightarrow> unmarshal \<Rightarrow> string \<Rightarrow> MenderShellConfig \<Rightarrow> nat
     \<Rightarrow> (error + MenderShellConfig \<times> nat) \<times> log_event list" where
  "loadConfigFile fs json_Unmarshal configFile config filesLoadedCount =
     (if os_Stat fs configFile = StatNotExist then
        (Inr (config, filesLoadedCount), [DebugFileDoesNotExist configFile])
      else
        (case readConfigFile fs json_Unmarshal config configFile of
           (Inl err, l) \<Rightarrow> (Inl err, l @ [ErrorLoadingFile configFile err])
         | (Inr config', l) \<Rightarrow>
             (Inr (config', filesLoadedCount + 1), l @ [InfoLoadedFile configFile])))"

text \<open>
  \<open>LoadConfig\<close> returns \<open>(nil, loadErr)\<close> or \<open>(config, nil)\<close>: a sum, next to the
  log events of the call.
\<close>

definition LoadConfig ::
  "filesystem \<Rightarrow> unmarshal \<Rightarrow> string \<Rightarrow> string \<Rightarrow> (error + MenderShellConfig) \<times> log_event list" where
  "LoadConfig fs json_Unmarshal mainConfigFile fallbackConfigFile =
     (case loadConfigFile fs json_Unmarshal fallbackConfigFile NewMenderShellConfig 0 of
        (Inl loadErr, l1) \<Rightarrow> (Inl loadErr, l1)
      | (Inr (config1, count1), l1) \<Rightarrow>
          (case loadConfigFile fs json_Unmarshal mainConfigFile config1 count1 of
             (Inl loadErr, l2) \<Rightarrow> (Inl loadErr, l1 @ l2)
           | (Inr (config, filesLoadedCount), l2) \<Rightarrow>
               if filesLoadedCount = 0 then
                 (Inr config, l1 @ l2 @ [DebugLoadedCount filesLoadedCount, InfoNoConfigurationFiles])
               else
                 (Inr config,
                  l1 @ l2 @ [DebugLoadedCount filesLoadedCount, DebugLoadedConfiguration config])))"

section \<open>Notions used to state the properties\<close>

text \<open>One server entry with a single \<open>/\<close> suffix of its URL removed, if it has one.\<close>

definition trim_server :: "MenderServer \<Rightarrow> MenderServer" where
  "trim_server s = s\<lparr>ServerURL := TrimSuffix (ServerURL s) ''/''\<rparr>"

text \<open>The warning of the loop for position \<open>j\<close> of a normalized sequence.\<close>

definition entry_warning :: "MenderServer list \<Rightarrow> nat \<Rightarrow> log_event list" where
  "entry_warning srv j =
     (if ServerURL (srv ! j) = '''' then [WarnServerEntryNoURL (j + 1)] else [])"

text \<open>
  The sequence the loop of \<open>Validate\<close> runs over: the explicit list, or the one
  entry made from the legacy URL when the list is nil.
\<close>

definition servers_before_loop :: "MenderShellConfig \<Rightarrow> MenderServer list" where
  "servers_before_loop c =
     (case Servers c of None \<Rightarrow> [\<lparr>ServerURL = cServerURL c\<rparr>] | Some srv \<Rightarrow> srv)"

text \<open>The three results of \<open>Validate\<close>, by name.\<close>

definition validate_error :: "(Client \<Rightarrow> Client) \<Rightarrow> MenderShellConfig \<Rightarrow> error option" where
  "validate_error cv c = fst (Validate cv c)"

definition validated :: "(Client \<Rightarrow> Client) \<Rightarrow> MenderShellConfig \<Rightarrow> MenderShellConfig" where
  "validated cv c = fst (snd (Validate cv c))"

definition validate_log :: "(Client \<Rightarrow> Client) \<Rightarrow> MenderShellConfig \<Rightarrow> log_event list" where
  "validate_log cv c = snd (snd (Validate cv c))"

definition conflict_error :: error where
  "conflict_error = ErrNew ''Both Servers AND ServerURL given in mender-shell.conf''"

text \<open>The error \<open>readConfigFile\<close> makes from an error of the decoder.\<close>

definition parse_error :: "json_error \<Rightarrow> error" where
  "parse_error je =
     (case je of
        SyntaxError m \<Rightarrow> ErrNew (''Error parsing mender configuration file: '' @ m)
      | OtherDecodeError m \<Rightarrow> ErrNew (''Error parsing config file: '' @ m))"

subsection \<open>Example configurations and environments\<close>

definition conf_legacy :: MenderShellConfig where
  "conf_legacy = NewMenderShellConfig\<lparr>cServerURL := ''http://a''\<rparr>"

definition conf_legacy_slash :: MenderShellConfig where
  "conf_legacy_slash = NewMenderShellConfig\<lparr>cServerURL := ''http://a/''\<rparr>"

definition conf_legacy_two_slashes :: MenderShellConfig where
  "conf_legacy_two_slashes = NewMenderShellConfig\<lparr>cServerURL := ''http://a//''\<rparr>"

definition conf_conflict :: MenderShellConfig where
  "conf_conflict =
     NewMenderShellConfig\<lparr>cServerURL := ''http://a'', Servers := Some [\<lparr>ServerURL = ''http://b/''\<rparr>]\<rparr>"

definition conf_empty_list :: MenderShellConfig where
  "conf_empty_list = NewMenderShellConfig\<lparr>Servers := Some []\<rparr>"

definition conf_list_slash :: MenderShellConfig where
  "conf_list_slash = NewMenderShellConfig\<lparr>Servers := Some [\<lparr>ServerURL = ''http://a/''\<rparr>]\<rparr>"

definition conf_list_two_slashes :: MenderShellConfig where
  "conf_list_two_slashes = NewMenderShellConfig\<lparr>Servers := Some [\<lparr>ServerURL = ''http://a//''\<rparr>]\<rparr>"

definition conf_mtls :: MenderShellConfig where
  "conf_mtls = NewMenderShellConfig\<lparr>HTTPSClient := \<lparr>Certificate = ''cert.pem'', Key = ''key.pem''\<rparr>\<rparr>"

text \<open>A file system with no file at all, and one where every path holds its own name.\<close>

definition fs_empty :: filesystem where
  "fs_empty = \<lparr>os_Stat = (\<lambda>p. StatNotExist), ioutil_ReadFile = (\<lambda>p. ReadError ''no such file'')\<rparr>"

definition fs_names :: filesystem where
  "fs_names = \<lparr>os_Stat = (\<lambda>p. StatOK), ioutil_ReadFile = (\<lambda>p. ReadOK p)\<rparr>"

text \<open>
  A decoder for three documents: \<open>main\<close> assigns \<open>User\<close>, \<open>fallback\<close> assigns
  \<open>User\<close> and \<open>ShellCommand\<close>, and anything else is a syntax error.
\<close>

definition unmarshal_example :: unmarshal where
  "unmarshal_example conf c =
     (if conf = ''main'' then Inr (c\<lparr>User := ''m''\<rparr>)
      else if conf = ''fallback'' then Inr (c\<lparr>User := ''f'', ShellCommand := ''sh''\<rparr>)
      else Inl (SyntaxError ''unexpected end of JSON input''))"

section \<open>The assignments of json.Unmarshal\<close>

text \<open>
  \<open>json.Unmarshal\<close> is the standard library's. What a file holds for the keys of the
  configuration is a document: each key, once, is absent, has the value \<open>null\<close>, or
  has a value of the field's JSON type; \<open>HttpsClient\<close> holds an object and
  \<open>Servers\<close> an array of objects. Bytes that are no such document are an error of
  the parser, which stays a parameter.
\<close>

datatype 'a member = Absent | Null | Value 'a

record client_doc =
  dCertificate :: "string member"
  dKey :: "string member"

record server_doc =
  eServerURL :: "string member"

record config_doc =
  dClientProtocol :: "string member"
  dHttpsClient :: "client_doc member"
  dSkipVerify :: "bool member"
  dServerCertificate :: "string member"
  dServerURL :: "string member"
  dServers :: "server_doc list member"
  dShellCommand :: "string member"
  dUser :: "string member"

text \<open>
  A string or a bool is overwritten by a value; an absent key and \<open>null\<close> leave the
  Go value as it is.
\<close>

definition assign :: "'a member \<Rightarrow> 'a \<Rightarrow> 'a" where
  "assign m old = (case m of Absent \<Rightarrow> old | Null \<Rightarrow> old | Value v \<Rightarrow> v)"

text \<open>An object is decoded into the struct that is there, member by member.\<close>

definition decode_client :: "client_doc \<Rightarrow> Client \<Rightarrow> Client" where
  "decode_client d cl =
     cl\<lparr>Certificate := assign (dCertificate d) (Certificate cl),
        Key := assign (dKey d) (Key cl)\<rparr>"

definition decode_server :: "server_doc \<Rightarrow> MenderServer \<Rightarrow> MenderServer" where
  "decode_server d s = s\<lparr>ServerURL := assign (eServerURL d) (ServerURL s)\<rparr>"

text \<open>
  An array is decoded into the slice that is there: element \<open>i\<close> into the entry at
  \<open>i\<close> while the slice has one, into a zero entry beyond; the slice ends with the
  length of the array.
\<close>

fun decode_array :: "server_doc list \<Rightarrow> MenderServer list \<Rightarrow> MenderServer list" where
  "decode_array [] old = []"
| "decode_array (e # es) [] = decode_server e \<lparr>ServerURL = ''''\<rparr> # decode_array es []"
| "decode_array (e # es) (s # old) = decode_server e s # decode_array es old"

text \<open>\<open>null\<close> sets a slice to nil.\<close>

definition decode_into :: "config_doc \<Rightarrow> MenderShellConfigFromFile \<Rightarrow> MenderShellConfigFromFile" where
  "decode_into d c =
     c\<lparr>ClientProtocol := assign (dClientProtocol d) (ClientProtocol c),
       HTTPSClient :=
         (case dHttpsClient d of
            Absent \<Rightarrow> HTTPSClient c
          | Null \<Rightarrow> HTTPSClient c
          | Value cd \<Rightarrow> decode_client cd (HTTPSClient c)),
       SkipVerify := assign (dSkipVerify d) (SkipVerify c),
       ServerCertificate := assign (dServerCertificate d) (ServerCertificate c),
       cServerURL := assign (dServerURL d) (cServerURL c),
       Servers :=
         (case dServers d of
            Absent \<Rightarrow> Servers c
          | Null \<Rightarrow> None
          | Value es \<Rightarrow>
              Some (decode_array es (case Servers c of None \<Rightarrow> [] | Some old \<Rightarrow> old))),
       ShellCommand := assign (dShellCommand d) (ShellCommand c),
       User := assign (dUser d) (User c)\<rparr>"

definition json_Unmarshal :: "(string \<Rightarrow> json_error + config_doc) \<Rightarrow> unmarshal" where
  "json_Unmarshal parse conf c =
     (case parse conf of Inl e \<Rightarrow> Inl e | Inr d \<Rightarrow> Inr (decode_into d c))"

subsection \<open>Notions used to state the merge\<close>





subsection \<open>Example documents\<close>





section \<open>Suffixes\<close>

lemma HasSuffix_slash: "HasSuffix s ''/'' \<longleftrightarrow> (s \<noteq> [] \<and> last s = CHR ''/'')"
proof (cases s rule: rev_cases)
  case Nil
  then show ?thesis by (simp add: HasSuffix_def)
next
  case (snoc ys y)
  then show ?thesis by (auto simp add: HasSuffix_def)
qed

lemma TrimSuffix_slash:
  "TrimSuffix s ''/'' = (if s \<noteq> [] \<and> last s = CHR ''/'' then butlast s else s)"
  by (simp add: TrimSuffix_def HasSuffix_slash butlast_conv_take)

lemma HasSuffix_two_slashes:
  "HasSuffix s ''//'' \<longleftrightarrow> HasSuffix s ''/'' \<and> HasSuffix (TrimSuffix s ''/'') ''/''"
proof (cases s rule: rev_cases)
  case Nil
  then show ?thesis by (simp add: HasSuffix_def)
next
  case outer: (snoc ys y)
  show ?thesis
  proof (cases ys rule: rev_cases)
    case Nil
    with outer show ?thesis by (simp add: HasSuffix_def TrimSuffix_def)
  next
    case (snoc zs z)
    with outer show ?thesis by (auto simp add: HasSuffix_def TrimSuffix_def)
  qed
qed

lemma TrimSuffix_noop: "\<not> HasSuffix s suf \<Longrightarrow> TrimSuffix s suf = s"
  by (simp add: TrimSuffix_def)

lemma TrimSuffix_append: "HasSuffix s suf \<Longrightarrow> TrimSuffix s suf @ suf = s"
  by (metis HasSuffix_def TrimSuffix_def append_take_drop_id)

section \<open>The loop of Validate\<close>

lemma validate_loop_step:
  "(if HasSuffix (ServerURL (srv ! i)) ''/''
    then srv[i := (srv ! i)\<lparr>ServerURL := TrimSuffix (ServerURL (srv ! i)) ''/''\<rparr>]
    else srv) = srv[i := trim_server (srv ! i)]"
  by (simp add: trim_server_def TrimSuffix_noop)

lemma validate_loop_unfold:
  "i < length srv \<Longrightarrow>
   validate_loop i srv =
     (fst (validate_loop (Suc i) (srv[i := trim_server (srv ! i)])),
      (if ServerURL (trim_server (srv ! i)) = '''' then [WarnServerEntryNoURL (Suc i)] else [])
        @ snd (validate_loop (Suc i) (srv[i := trim_server (srv ! i)])))"
  by (subst validate_loop.simps) (simp add: validate_loop_step Let_def split: prod.splits)

lemma validate_loop_done: "\<not> i < length srv \<Longrightarrow> validate_loop i srv = (srv, [])"
  by (subst validate_loop.simps) simp

text \<open>
  The loop at index \<open>i\<close> has left the entries before \<open>i\<close> alone and trims every
  entry from \<open>i\<close> on.
\<close>

lemma validate_loop_fst:
  "fst (validate_loop i srv) = take i srv @ map trim_server (drop i srv)"
proof (induction "length srv - i" arbitrary: i srv)
  case 0
  then show ?case by (simp add: validate_loop_done)
next
  case (Suc n)
  then have lt: "i < length srv" by simp
  let ?srv' = "srv[i := trim_server (srv ! i)]"
  have "n = length ?srv' - Suc i" using Suc.hyps(2) by simp
  then have ih: "fst (validate_loop (Suc i) ?srv') =
      take (Suc i) ?srv' @ map trim_server (drop (Suc i) ?srv')"
    by (rule Suc.hyps(1))
  have "take (Suc i) ?srv' = take i srv @ [trim_server (srv ! i)]"
    using lt by (simp add: take_Suc_conv_app_nth)
  moreover have "drop (Suc i) ?srv' = drop (Suc i) srv" by simp
  moreover have "drop i srv = srv ! i # drop (Suc i) srv"
    using lt by (simp add: Cons_nth_drop_Suc)
  ultimately show ?case using ih lt by (simp add: validate_loop_unfold)
qed

lemma validate_loop_snd:
  "snd (validate_loop i srv) =
     concat (map (entry_warning (map trim_server srv)) [i..<length srv])"
proof (induction "length srv - i" arbitrary: i srv)
  case 0
  then show ?case by (simp add: validate_loop_done)
next
  case (Suc n)
  then have lt: "i < length srv" by simp
  let ?srv' = "srv[i := trim_server (srv ! i)]"
  have "n = length ?srv' - Suc i" using Suc.hyps(2) by simp
  then have ih: "snd (validate_loop (Suc i) ?srv') =
      concat (map (entry_warning (map trim_server ?srv')) [Suc i..<length ?srv'])"
    by (rule Suc.hyps(1))
  have same: "\<And>j. Suc i \<le> j \<Longrightarrow> j < length srv \<Longrightarrow>
      entry_warning (map trim_server ?srv') j = entry_warning (map trim_server srv) j"
    by (simp add: entry_warning_def)
  have eq: "concat (map (entry_warning (map trim_server ?srv')) [Suc i..<length srv])
      = concat (map (entry_warning (map trim_server srv)) [Suc i..<length srv])"
    by (rule arg_cong [where f = concat], rule map_cong) (auto simp: same)
  have "snd (validate_loop i srv) = entry_warning (map trim_server srv) i
      @ snd (validate_loop (Suc i) ?srv')"
    using lt by (simp add: validate_loop_unfold entry_warning_def)
  also have "\<dots> = entry_warning (map trim_server srv) i
      @ concat (map (entry_warning (map trim_server srv)) [Suc i..<length srv])"
    using ih eq by simp
  also have "\<dots> = concat (map (entry_warning (map trim_server srv)) [i..<length srv])"
    using lt by (simp add: upt_conv_Cons)
  finally show ?case .
qed

lemma validate_loop_0:
  "validate_loop 0 srv =
     (map trim_server srv,
      concat (map (entry_warning (map trim_server srv)) [0..<length srv]))"
  using validate_loop_fst [of 0 srv] validate_loop_snd [of 0 srv]
  by (simp add: prod_eq_iff)

section \<open>Properties of Validate\<close>

lemma Validate_conflict:
  "Servers c \<noteq> None \<Longrightarrow> cServerURL c \<noteq> '''' \<Longrightarrow>
   Validate cv c = (Some conflict_error, c, [ErrorBothServersAndServerURL])"
  by (auto simp: Validate_def conflict_error_def)

lemma Validate_ok:
  "Servers c = None \<or> cServerURL c = '''' \<Longrightarrow>
   Validate cv c =
     (None,
      c\<lparr>Servers := Some (map trim_server (servers_before_loop c)),
        HTTPSClient := cv (HTTPSClient c)\<rparr>,
      (if Servers c = None \<and> cServerURL c = '''' then [WarnNoServerURL] else [])
       @ concat (map (entry_warning (map trim_server (servers_before_loop c)))
                   [0..<length (servers_before_loop c)])
       @ [DebugVerifiedConfiguration
            (c\<lparr>Servers := Some (map trim_server (servers_before_loop c)),
               HTTPSClient := cv (HTTPSClient c)\<rparr>)])"
  by (cases "Servers c")
     (auto simp: Validate_def servers_before_loop_def validate_loop_0 Let_def)

text \<open>
  C1. \<open>Validate\<close> returns an error exactly when the \<open>Servers\<close> list is non-nil and
  the legacy \<open>ServerURL\<close> is non-empty. In that case it returns the conflict error
  with the configuration as it was handed in, having logged only the error; in
  every other case the error is nil.
\<close>

theorem Validate_error_iff_conflict:
  "(validate_error cv c \<noteq> None \<longleftrightarrow> Servers c \<noteq> None \<and> cServerURL c \<noteq> '''') \<and>
   (Servers c \<noteq> None \<and> cServerURL c \<noteq> '''' \<longrightarrow>
      Validate cv c = (Some conflict_error, c, [ErrorBothServersAndServerURL]))"
proof (cases "Servers c \<noteq> None \<and> cServerURL c \<noteq> ''''")
  case True
  then show ?thesis by (simp add: validate_error_def Validate_conflict)
next
  case False
  then have "Servers c = None \<or> cServerURL c = ''''" by blast
  from Validate_ok [OF this, of cv] False show ?thesis
    by (simp add: validate_error_def)
qed

theorem Validate_error_iff_conflict_witness:
  "Servers conf_conflict \<noteq> None \<and> cServerURL conf_conflict \<noteq> '''' \<and>
   validate_error id conf_conflict \<noteq> None \<and>
   Validate id conf_conflict = (Some conflict_error, conf_conflict, [ErrorBothServersAndServerURL]) \<and>
   validate_error id conf_legacy = None"
  using Validate_error_iff_conflict [of id conf_conflict]
    Validate_error_iff_conflict [of id conf_legacy]
  by (simp add: conf_conflict_def conf_legacy_def NewMenderShellConfig_def)

lemma validated_ok:
  "validate_error cv c = None \<Longrightarrow>
   validated cv c = c\<lparr>Servers := Some (map trim_server (servers_before_loop c)),
                      HTTPSClient := cv (HTTPSClient c)\<rparr>"
proof -
  assume ok: "validate_error cv c = None"
  have "Servers c = None \<or> cServerURL c = ''''"
  proof (rule ccontr)
    assume "\<not> (Servers c = None \<or> cServerURL c = '''')"
    then have "Validate cv c = (Some conflict_error, c, [ErrorBothServersAndServerURL])"
      by (simp add: Validate_conflict)
    with ok show False by (simp add: validate_error_def)
  qed
  from Validate_ok [OF this, of cv] show ?thesis by (simp add: validated_def)
qed

lemma validate_error_None_iff:
  "validate_error cv c = None \<longleftrightarrow> Servers c = None \<or> cServerURL c = ''''"
proof
  assume "validate_error cv c = None"
  show "Servers c = None \<or> cServerURL c = ''''"
  proof (rule ccontr)
    assume "\<not> (Servers c = None \<or> cServerURL c = '''')"
    then have "Validate cv c = (Some conflict_error, c, [ErrorBothServersAndServerURL])"
      by (simp add: Validate_conflict)
    with \<open>validate_error cv c = None\<close> show False by (simp add: validate_error_def)
  qed
next
  assume "Servers c = None \<or> cServerURL c = ''''"
  from Validate_ok [OF this, of cv] show "validate_error cv c = None"
    by (simp add: validate_error_def)
qed

lemma trim_server_fixed: "trim_server s = s \<longleftrightarrow> \<not> HasSuffix (ServerURL s) ''/''"
proof (cases "HasSuffix (ServerURL s) ''/''")
  case True
  then have "length (TrimSuffix (ServerURL s) ''/'') < length (ServerURL s)"
    by (auto simp add: TrimSuffix_def HasSuffix_def)
  then have "ServerURL (trim_server s) \<noteq> ServerURL s"
    by (auto simp: trim_server_def)
  with True show ?thesis by auto
next
  case False
  then show ?thesis by (simp add: trim_server_def TrimSuffix_noop)
qed

text \<open>
  C3, as amended. When \<open>Validate\<close> returns without error, the final \<open>Servers\<close>
  sequence is the sequence the loop started from (the explicit list, or the one
  entry made from the legacy URL) with exactly one trailing \<open>/\<close> removed from
  each URL that has one: a URL that ended in \<open>/\<close> is the final URL followed by
  \<open>/\<close>, any other URL is unchanged. A final URL therefore still ends in \<open>/\<close>
  exactly when the URL it comes from ended in \<open>//\<close>.
\<close>

theorem Validate_strips_one_slash:
  "validate_error cv c = None \<Longrightarrow>
   Servers (validated cv c) = Some (map trim_server (servers_before_loop c)) \<and>
   list_all2
     (\<lambda>s s'. ServerURL s = (if HasSuffix (ServerURL s) ''/'' then ServerURL s' @ ''/'' else ServerURL s')
        \<and> HasSuffix (ServerURL s') ''/'' = HasSuffix (ServerURL s) ''//'')
     (servers_before_loop c) (map trim_server (servers_before_loop c))"
proof -
  assume ok: "validate_error cv c = None"
  have one: "ServerURL s = (if HasSuffix (ServerURL s) ''/'' then ServerURL (trim_server s) @ ''/''
                            else ServerURL (trim_server s))" for s
    by (simp add: trim_server_def TrimSuffix_append TrimSuffix_noop)
  have two: "HasSuffix (ServerURL (trim_server s)) ''/'' = HasSuffix (ServerURL s) ''//''" for s
    by (cases "HasSuffix (ServerURL s) ''/''")
       (simp_all add: trim_server_def HasSuffix_two_slashes TrimSuffix_noop)
  have "list_all2
     (\<lambda>s s'. ServerURL s = (if HasSuffix (ServerURL s) ''/'' then ServerURL s' @ ''/'' else ServerURL s')
        \<and> HasSuffix (ServerURL s') ''/'' = HasSuffix (ServerURL s) ''//'')
     xs (map trim_server xs)" for xs
    unfolding list_all2_map2 by (rule list_all2_refl) (use one two in blast)
  with ok show ?thesis by (simp add: validated_ok)
qed

text \<open>
  Witness of C3, the example of the specification: the legacy URL \<open>http://a/\<close> and no explicit
  list give the single entry \<open>http://a\<close>.
\<close>

theorem Validate_strips_one_slash_witness:
  "validate_error id conf_legacy_slash = None \<and>
   Servers (validated id conf_legacy_slash) = Some [\<lparr>ServerURL = ''http://a''\<rparr>]"
proof -
  have ok: "validate_error id conf_legacy_slash = None"
    by (simp add: validate_error_None_iff conf_legacy_slash_def NewMenderShellConfig_def)
  from Validate_strips_one_slash [OF ok] ok show ?thesis
    by (simp add: servers_before_loop_def conf_legacy_slash_def NewMenderShellConfig_def
        trim_server_def TrimSuffix_def HasSuffix_def)
qed

text \<open>
  Counterexample to C3 as stated: the legacy URL \<open>http://a//\<close> passes validation and leaves
  the entry \<open>http://a/\<close>, which ends in \<open>/\<close>.
\<close>

theorem Validate_trailing_slash_counterexample:
  "validate_error id conf_legacy_two_slashes = None \<and>
   Servers (validated id conf_legacy_two_slashes) = Some [\<lparr>ServerURL = ''http://a/''\<rparr>] \<and>
   HasSuffix ''http://a/'' ''/''"
proof -
  have ok: "validate_error id conf_legacy_two_slashes = None"
    by (simp add: validate_error_None_iff conf_legacy_two_slashes_def NewMenderShellConfig_def)
  from validated_ok [OF ok] ok show ?thesis
    by (simp add: servers_before_loop_def conf_legacy_two_slashes_def NewMenderShellConfig_def
        trim_server_def TrimSuffix_def HasSuffix_def)
qed

text \<open>
  C4, as amended. After a successful \<open>Validate\<close>, a second \<open>Validate\<close> returns the
  conflict error exactly when the legacy \<open>ServerURL\<close> is non-empty (the first call
  has made the list non-nil and has not cleared the legacy field), and then leaves
  the configuration as it was. When the legacy \<open>ServerURL\<close> is empty the second
  call succeeds, and it leaves \<open>Servers\<close> unchanged exactly when no URL left by the
  first call ends in \<open>/\<close>.
\<close>

theorem Validate_twice:
  "validate_error cv c = None \<Longrightarrow>
   (validate_error cv (validated cv c) \<noteq> None \<longleftrightarrow> cServerURL c \<noteq> '''') \<and>
   (cServerURL c \<noteq> '''' \<longrightarrow>
      Validate cv (validated cv c) =
        (Some conflict_error, validated cv c, [ErrorBothServersAndServerURL])) \<and>
   (cServerURL c = '''' \<longrightarrow>
      (Servers (validated cv (validated cv c)) = Servers (validated cv c)
         \<longleftrightarrow> list_all (\<lambda>s. \<not> HasSuffix (ServerURL s) ''/'') (servers_before_loop (validated cv c))))"
proof -
  assume ok: "validate_error cv c = None"
  let ?c' = "validated cv c"
  have c': "?c' = c\<lparr>Servers := Some (map trim_server (servers_before_loop c)),
                      HTTPSClient := cv (HTTPSClient c)\<rparr>"
    using ok by (rule validated_ok)
  have srv: "Servers ?c' \<noteq> None" and url: "cServerURL ?c' = cServerURL c"
    by (simp_all add: c')
  have err: "validate_error cv ?c' \<noteq> None \<longleftrightarrow> cServerURL c \<noteq> ''''"
    using srv url by (simp add: validate_error_None_iff)
  have conflict: "Validate cv ?c' = (Some conflict_error, ?c', [ErrorBothServersAndServerURL])"
    if "cServerURL c \<noteq> ''''"
    using srv url that by (simp add: Validate_conflict)
  have again: "Servers (validated cv ?c') = Servers ?c'
      \<longleftrightarrow> list_all (\<lambda>s. \<not> HasSuffix (ServerURL s) ''/'') (servers_before_loop ?c')"
    if "cServerURL c = ''''"
  proof -
    have "validate_error cv ?c' = None" using err that by simp
    then have "Servers (validated cv ?c') = Some (map trim_server (servers_before_loop ?c'))"
      by (simp add: validated_ok)
    moreover have "Servers ?c' = Some (servers_before_loop ?c')"
      by (simp add: c' servers_before_loop_def)
    moreover have "map trim_server xs = xs \<longleftrightarrow> list_all (\<lambda>s. \<not> HasSuffix (ServerURL s) ''/'') xs" for xs
      by (induction xs) (simp_all add: trim_server_fixed)
    ultimately show ?thesis by simp
  qed
  from err conflict again show ?thesis by blast
qed

text \<open>
  Witness of C4. An explicit list with the URL \<open>http://a/\<close> and no legacy URL: the second call
  succeeds and changes nothing.
\<close>

theorem Validate_twice_witness:
  "validate_error id conf_list_slash = None \<and>
   validate_error id (validated id conf_list_slash) = None \<and>
   Servers (validated id (validated id conf_list_slash)) = Servers (validated id conf_list_slash) \<and>
   Servers (validated id conf_list_slash) = Some [\<lparr>ServerURL = ''http://a''\<rparr>]"
proof -
  have ok: "validate_error id conf_list_slash = None"
    by (simp add: validate_error_None_iff conf_list_slash_def NewMenderShellConfig_def)
  have v: "validated id conf_list_slash =
      conf_list_slash\<lparr>Servers := Some [\<lparr>ServerURL = ''http://a''\<rparr>]\<rparr>"
    using validated_ok [OF ok]
    by (simp add: servers_before_loop_def conf_list_slash_def NewMenderShellConfig_def
        trim_server_def TrimSuffix_def HasSuffix_def)
  have u: "cServerURL conf_list_slash = ''''"
    by (simp add: conf_list_slash_def NewMenderShellConfig_def)
  have l: "list_all (\<lambda>s. \<not> HasSuffix (ServerURL s) ''/'') (servers_before_loop (validated id conf_list_slash))"
    by (simp add: v servers_before_loop_def HasSuffix_def)
  from Validate_twice [OF ok] u l ok v show ?thesis by simp
qed

text \<open>
  Counterexample to C4 as stated, on both counts. With the legacy URL \<open>http://a\<close> and no list, the first
  call succeeds and the second returns the conflict error. With the explicit list
  \<open>[http://a//]\<close> the first call leaves \<open>http://a/\<close> and the second \<open>http://a\<close>.
\<close>

theorem Validate_not_idempotent_counterexample:
  "validate_error id conf_legacy = None \<and>
   validate_error id (validated id conf_legacy) = Some conflict_error \<and>
   validate_error id conf_list_two_slashes = None \<and>
   Servers (validated id conf_list_two_slashes) = Some [\<lparr>ServerURL = ''http://a/''\<rparr>] \<and>
   validate_error id (validated id conf_list_two_slashes) = None \<and>
   Servers (validated id (validated id conf_list_two_slashes)) = Some [\<lparr>ServerURL = ''http://a''\<rparr>]"
proof -
  have ok1: "validate_error id conf_legacy = None"
    by (simp add: validate_error_None_iff conf_legacy_def NewMenderShellConfig_def)
  have v1: "validated id conf_legacy = conf_legacy\<lparr>Servers := Some [\<lparr>ServerURL = ''http://a''\<rparr>]\<rparr>"
    using validated_ok [OF ok1]
    by (simp add: servers_before_loop_def conf_legacy_def NewMenderShellConfig_def
        trim_server_def TrimSuffix_def HasSuffix_def)
  have e1: "validate_error id (validated id conf_legacy) = Some conflict_error"
    unfolding v1 validate_error_def
    by (subst Validate_conflict) (simp_all add: conf_legacy_def NewMenderShellConfig_def)
  have ok2: "validate_error id conf_list_two_slashes = None"
    by (simp add: validate_error_None_iff conf_list_two_slashes_def NewMenderShellConfig_def)
  have v2: "validated id conf_list_two_slashes =
      conf_list_two_slashes\<lparr>Servers := Some [\<lparr>ServerURL = ''http://a/''\<rparr>]\<rparr>"
    using validated_ok [OF ok2]
    by (simp add: servers_before_loop_def conf_list_two_slashes_def NewMenderShellConfig_def
        trim_server_def TrimSuffix_def HasSuffix_def)
  have ok3: "validate_error id (validated id conf_list_two_slashes) = None"
    unfolding v2
    by (simp add: validate_error_None_iff conf_list_two_slashes_def NewMenderShellConfig_def)
  have v3: "Servers (validated id (validated id conf_list_two_slashes)) = Some [\<lparr>ServerURL = ''http://a''\<rparr>]"
    using validated_ok [OF ok3] unfolding v2
    by (simp add: servers_before_loop_def conf_list_two_slashes_def NewMenderShellConfig_def
        trim_server_def TrimSuffix_def HasSuffix_def)
  from ok1 e1 ok2 v2 ok3 v3 show ?thesis by simp
qed

text \<open>
  C5, as amended. For every configuration whose legacy \<open>ServerURL\<close> is empty and
  whose \<open>Servers\<close> list is nil, \<open>Validate\<close> returns no error, leaves \<open>Servers\<close> with
  exactly one entry whose URL is empty, and logs the warning that no server URL
  is specified (followed by the warning for entry 1 and the debug line).
\<close>

theorem Validate_nil_servers:
  "cServerURL c = '''' \<Longrightarrow> Servers c = None \<Longrightarrow>
   Validate cv c =
     (None,
      c\<lparr>Servers := Some [\<lparr>ServerURL = ''''\<rparr>], HTTPSClient := cv (HTTPSClient c)\<rparr>,
      [WarnNoServerURL, WarnServerEntryNoURL 1,
       DebugVerifiedConfiguration
         (c\<lparr>Servers := Some [\<lparr>ServerURL = ''''\<rparr>], HTTPSClient := cv (HTTPSClient c)\<rparr>)])"
proof -
  assume a: "cServerURL c = ''''" "Servers c = None"
  then have "Servers c = None \<or> cServerURL c = ''''" by simp
  from Validate_ok [OF this, of cv] a show ?thesis
    by (simp add: servers_before_loop_def trim_server_def TrimSuffix_def HasSuffix_def
        entry_warning_def)
qed

text \<open>
  Witness of C5: the default configuration is such a configuration.
\<close>

theorem Validate_nil_servers_witness:
  "cServerURL NewMenderShellConfig = '''' \<and> Servers NewMenderShellConfig = None \<and>
   validate_error id NewMenderShellConfig = None \<and>
   Servers (validated id NewMenderShellConfig) = Some [\<lparr>ServerURL = ''''\<rparr>] \<and>
   WarnNoServerURL \<in> set (validate_log id NewMenderShellConfig)"
  using Validate_nil_servers [of NewMenderShellConfig id]
  by (simp add: NewMenderShellConfig_def validate_error_def validated_def validate_log_def)

text \<open>
  Counterexample to C5 as stated, for an empty list that is not nil (a file with
  \<open>"Servers": []\<close>): \<open>Validate\<close> succeeds, \<open>Servers\<close> keeps zero entries and no warning
  is logged.
\<close>

theorem Validate_empty_list_counterexample:
  "cServerURL conf_empty_list = '''' \<and> Servers conf_empty_list = Some [] \<and>
   validate_error id conf_empty_list = None \<and>
   Servers (validated id conf_empty_list) = Some [] \<and>
   validate_log id conf_empty_list = [DebugVerifiedConfiguration conf_empty_list]"
proof -
  have "Servers conf_empty_list = None \<or> cServerURL conf_empty_list = ''''"
    by (simp add: conf_empty_list_def NewMenderShellConfig_def)
  from Validate_ok [OF this, of id] show ?thesis
    by (simp add: validate_error_def validated_def validate_log_def servers_before_loop_def
        conf_empty_list_def NewMenderShellConfig_def)
qed

text \<open>
  C10. \<open>Validate\<close> leaves \<open>ClientProtocol\<close>, \<open>SkipVerify\<close>, \<open>ServerCertificate\<close>, the
  legacy \<open>ServerURL\<close>, \<open>ShellCommand\<close> and \<open>User\<close> as they were, on every call; the
  HTTPS client is as it was or as its own validation leaves it; the configuration
  after the call differs from the one before in \<open>Servers\<close> and \<open>HTTPSClient\<close> at
  most.
\<close>

theorem Validate_frame:
  "ClientProtocol (validated cv c) = ClientProtocol c \<and>
   SkipVerify (validated cv c) = SkipVerify c \<and>
   ServerCertificate (validated cv c) = ServerCertificate c \<and>
   cServerURL (validated cv c) = cServerURL c \<and>
   ShellCommand (validated cv c) = ShellCommand c \<and>
   User (validated cv c) = User c \<and>
   HTTPSClient (validated cv c) \<in> {HTTPSClient c, cv (HTTPSClient c)} \<and>
   validated cv c = c\<lparr>Servers := Servers (validated cv c),
                       HTTPSClient := HTTPSClient (validated cv c)\<rparr>"
proof (cases "validate_error cv c = None")
  case True
  then show ?thesis by (simp add: validated_ok)
next
  case False
  then have "Servers c \<noteq> None" "cServerURL c \<noteq> ''''"
    by (simp_all add: validate_error_None_iff)
  then have "validated cv c = c" by (simp add: validated_def Validate_conflict)
  then show ?thesis by simp
qed

section \<open>Properties of GetHTTPConfig\<close>

text \<open>
  C9. The \<open>Client\<close> field of the HTTP configuration is non-nil exactly when both
  \<open>Certificate\<close> and \<open>Key\<close> of the configuration's HTTPS client are non-empty. The
  two fields are read after the HTTPS client's own validation has run, so they
  are the fields as that validation leaves them; when it leaves the two fields as
  they were, they are the fields of the configuration handed in. A non-nil
  \<open>Client\<close> is the HTTPS client of the configuration.
\<close>

theorem GetHTTPConfig_client_iff:
  "(Client (fst (GetHTTPConfig cv c)) \<noteq> None \<longleftrightarrow>
      Certificate (HTTPSClient (snd (GetHTTPConfig cv c))) \<noteq> '''' \<and>
      Key (HTTPSClient (snd (GetHTTPConfig cv c))) \<noteq> '''') \<and>
   snd (GetHTTPConfig cv c) = c\<lparr>HTTPSClient := cv (HTTPSClient c)\<rparr> \<and>
   Client (fst (GetHTTPConfig cv c)) \<in> {None, Some (cv (HTTPSClient c))} \<and>
   (Certificate (cv (HTTPSClient c)) = Certificate (HTTPSClient c) \<and>
    Key (cv (HTTPSClient c)) = Key (HTTPSClient c) \<longrightarrow>
      (Client (fst (GetHTTPConfig cv c)) \<noteq> None \<longleftrightarrow>
         Certificate (HTTPSClient c) \<noteq> '''' \<and> Key (HTTPSClient c) \<noteq> ''''))"
  by (simp add: GetHTTPConfig_def maybeHTTPSClient_def Let_def)

theorem GetHTTPConfig_client_iff_witness:
  "Certificate (id (HTTPSClient conf_mtls)) = Certificate (HTTPSClient conf_mtls) \<and>
   Key (id (HTTPSClient conf_mtls)) = Key (HTTPSClient conf_mtls) \<and>
   Client (fst (GetHTTPConfig id conf_mtls)) = Some \<lparr>Certificate = ''cert.pem'', Key = ''key.pem''\<rparr> \<and>
   Client (fst (GetHTTPConfig id NewMenderShellConfig)) = None"
  using GetHTTPConfig_client_iff [of id conf_mtls] GetHTTPConfig_client_iff [of id NewMenderShellConfig]
  by (auto simp add: conf_mtls_def NewMenderShellConfig_def)

section \<open>Properties of LoadConfig\<close>

lemma loadConfigFile_missing:
  "os_Stat fs p = StatNotExist \<Longrightarrow>
   loadConfigFile fs U p config n = (Inr (config, n), [DebugFileDoesNotExist p])"
  by (simp add: loadConfigFile_def)


lemma loadConfigFile_malformed:
  "os_Stat fs p \<noteq> StatNotExist \<Longrightarrow> ioutil_ReadFile fs p = ReadOK conf \<Longrightarrow>
   U conf config = Inl je \<Longrightarrow>
   loadConfigFile fs U p config n =
     (Inl (parse_error je), [DebugReadingFile p, ErrorLoadingFile p (parse_error je)])"
  by (cases je) (simp_all add: loadConfigFile_def readConfigFile_def parse_error_def)

text \<open>
  C7. When neither path exists, \<open>LoadConfig\<close> returns the default configuration
  and no error, whatever the decoder; the log shows both files skipped and a count
  of 0 loaded files.
\<close>

theorem LoadConfig_no_files:
  "os_Stat fs mainConfigFile = StatNotExist \<Longrightarrow> os_Stat fs fallbackConfigFile = StatNotExist \<Longrightarrow>
   LoadConfig fs U mainConfigFile fallbackConfigFile =
     (Inr NewMenderShellConfig,
      [DebugFileDoesNotExist fallbackConfigFile, DebugFileDoesNotExist mainConfigFile,
       DebugLoadedCount 0, InfoNoConfigurationFiles])"
  by (simp add: LoadConfig_def loadConfigFile_missing)

theorem LoadConfig_no_files_witness:
  "os_Stat fs_empty ''/etc/mender/mender-shell.conf'' = StatNotExist \<and>
   os_Stat fs_empty ''/var/lib/mender/mender-shell.conf'' = StatNotExist \<and>
   LoadConfig fs_empty unmarshal_example ''/etc/mender/mender-shell.conf''
       ''/var/lib/mender/mender-shell.conf'' =
     (Inr NewMenderShellConfig,
      [DebugFileDoesNotExist ''/var/lib/mender/mender-shell.conf'',
       DebugFileDoesNotExist ''/etc/mender/mender-shell.conf'',
       DebugLoadedCount 0, InfoNoConfigurationFiles])"
  using LoadConfig_no_files [of fs_empty "''/etc/mender/mender-shell.conf''" "''/var/lib/mender/mender-shell.conf''"
      unmarshal_example]
  by (simp add: fs_empty_def)











text \<open>
  C6. Let the file at \<open>p\<close> exist and be readable with bytes the decoder rejects,
  whatever the configuration so far. If \<open>p\<close> is one of the two paths, \<open>LoadConfig\<close>
  returns an error and no configuration. If \<open>p\<close> is the fallback path, the error is
  the parse error of that file and the main file is never looked at. If \<open>p\<close> is the
  main path and the fallback has been loaded or skipped, the error is the parse
  error of the main file. The parse error of a syntax error and that of another
  decode error are different, whatever the two messages of the decoder.
\<close>

theorem LoadConfig_malformed_json:
  assumes "os_Stat fs p \<noteq> StatNotExist"
    and "ioutil_ReadFile fs p = ReadOK conf"
    and "\<forall>c. isl (U conf c)"
  shows "(p = fallbackConfigFile \<or> p = mainConfigFile \<longrightarrow>
            isl (fst (LoadConfig fs U mainConfigFile fallbackConfigFile))) \<and>
         (p = fallbackConfigFile \<longrightarrow>
            LoadConfig fs U mainConfigFile fallbackConfigFile =
              (Inl (parse_error (projl (U conf NewMenderShellConfig))),
               [DebugReadingFile p,
                ErrorLoadingFile p (parse_error (projl (U conf NewMenderShellConfig)))])) \<and>
         (p = mainConfigFile \<longrightarrow>
            (\<forall>c1 n1 l1. loadConfigFile fs U fallbackConfigFile NewMenderShellConfig 0 = (Inr (c1, n1), l1) \<longrightarrow>
               LoadConfig fs U mainConfigFile fallbackConfigFile =
                 (Inl (parse_error (projl (U conf c1))),
                  l1 @ [DebugReadingFile p, ErrorLoadingFile p (parse_error (projl (U conf c1)))]))) \<and>
         parse_error (SyntaxError m) \<noteq> parse_error (OtherDecodeError m')"
proof -
  have bad: "loadConfigFile fs U p c n =
      (Inl (parse_error (projl (U conf c))),
       [DebugReadingFile p, ErrorLoadingFile p (parse_error (projl (U conf c)))])" for c n
  proof -
    from assms(3) obtain je where "U conf c = Inl je" by (cases "U conf c") (auto dest: spec [of _ c])
    with assms(1,2) show ?thesis by (simp add: loadConfigFile_malformed)
  qed
  have fb: "LoadConfig fs U mainConfigFile fallbackConfigFile =
      (Inl (parse_error (projl (U conf NewMenderShellConfig))),
       [DebugReadingFile p, ErrorLoadingFile p (parse_error (projl (U conf NewMenderShellConfig)))])"
    if "p = fallbackConfigFile"
    using bad [of NewMenderShellConfig 0] that by (simp add: LoadConfig_def)
  have mn: "LoadConfig fs U mainConfigFile fallbackConfigFile =
      (Inl (parse_error (projl (U conf c1))),
       l1 @ [DebugReadingFile p, ErrorLoadingFile p (parse_error (projl (U conf c1)))])"
    if "p = mainConfigFile"
      and "loadConfigFile fs U fallbackConfigFile NewMenderShellConfig 0 = (Inr (c1, n1), l1)"
    for c1 n1 l1
    using bad [of c1 n1] that by (simp add: LoadConfig_def)
  have any: "isl (fst (LoadConfig fs U mainConfigFile fallbackConfigFile))"
    if "p = fallbackConfigFile \<or> p = mainConfigFile"
  proof (cases "p = fallbackConfigFile")
    case True
    then show ?thesis by (simp add: fb)
  next
    case False
    with that have pm: "p = mainConfigFile" by simp
    obtain r l1 where r: "loadConfigFile fs U fallbackConfigFile NewMenderShellConfig 0 = (r, l1)"
      by (cases "loadConfigFile fs U fallbackConfigFile NewMenderShellConfig 0")
    show ?thesis
    proof (cases r)
      case (Inl e)
      with r show ?thesis by (simp add: LoadConfig_def)
    next
      case (Inr cn)
      obtain c1 n1 where "cn = (c1, n1)" by (cases cn)
      with Inr r pm show ?thesis by (simp add: mn)
    qed
  qed
  have "parse_error (SyntaxError m) \<noteq> parse_error (OtherDecodeError m')"
    by (simp add: parse_error_def)
  with fb mn any show ?thesis by blast
qed

theorem LoadConfig_malformed_json_witness:
  "LoadConfig fs_names unmarshal_example ''main'' ''broken'' =
     (Inl (ErrNew ''Error parsing mender configuration file: unexpected end of JSON input''),
      [DebugReadingFile ''broken'',
       ErrorLoadingFile ''broken''
         (ErrNew ''Error parsing mender configuration file: unexpected end of JSON input'')]) \<and>
   isl (fst (LoadConfig fs_names unmarshal_example ''broken'' ''fallback''))"
proof -
  have a1: "os_Stat fs_names ''broken'' \<noteq> StatNotExist"
    and a2: "ioutil_ReadFile fs_names ''broken'' = ReadOK ''broken''"
    by (simp_all add: fs_names_def)
  have a3: "\<forall>c. isl (unmarshal_example ''broken'' c)"
    by (simp add: unmarshal_example_def)
  note at_fallback = LoadConfig_malformed_json [where fs = fs_names and U = unmarshal_example and p = "''broken''"
      and conf = "''broken''" and fallbackConfigFile = "''broken''" and mainConfigFile = "''main''",
      OF a1 a2 a3]
  note at_main = LoadConfig_malformed_json [where fs = fs_names and U = unmarshal_example and p = "''broken''"
      and conf = "''broken''" and fallbackConfigFile = "''fallback''" and mainConfigFile = "''broken''",
      OF a1 a2 a3]
  from at_fallback at_main
  show ?thesis by (simp add: unmarshal_example_def parse_error_def)
qed

end
